theory Spec2Isabelle
  imports Main "HOL-Library.Multiset"
begin

section \<open>Python values and exceptions\<close>

text \<open>
  The exceptions that the functions of \<^verbatim>\<open>licensecheck/packageinfo.py\<close> raise, catch or
  let through.  \<open>KeyError\<close> carries the missing key.  \<open>RequestException\<close> stands for
  whatever \<^verbatim>\<open>requests.get\<close> raises, \<open>JSONDecodeError\<close> for a body that is not JSON,
  \<open>TOMLDecodeError\<close> and \<open>ParsingError\<close> for a manifest the parser rejects.
\<close>

datatype error =
    PackageNotFoundError
  | ModuleNotFoundError
  | TypeError
  | KeyError string
  | IndexError
  | ValueError
  | AttributeError
  | RequestException
  | JSONDecodeError
  | TOMLDecodeError
  | ParsingError
  | OtherError string

text \<open>
  What \<^verbatim>\<open>request.json()\<close> and \<^verbatim>\<open>tomli.loads\<close> return: nested dictionaries, lists,
  strings, integers, booleans and \<^verbatim>\<open>None\<close>.  A dictionary keeps its keys in insertion
  order.  Floating-point numbers are left out.
\<close>

datatype json =
    JNull
  | JBool bool
  | JInt int
  | JStr string
  | JArr "json list"
  | JObj "(string \<times> json) list"

section \<open>String operations\<close>

text \<open>\<^verbatim>\<open>s.startswith(p)\<close>.\<close>

definition startswith :: "string \<Rightarrow> string \<Rightarrow> bool" where
  "startswith s p = (take (length p) s = p)"

text \<open>\<^verbatim>\<open>p in s\<close> for two strings: \<open>p\<close> occurs in \<open>s\<close> as a contiguous run.\<close>

fun str_contains :: "string \<Rightarrow> string \<Rightarrow> bool" where
  "str_contains p [] = (p = [])"
| "str_contains p (c # cs) = (startswith (c # cs) p \<or> str_contains p cs)"

text \<open>
  \<^verbatim>\<open>s.split(sep)\<close> for a non-empty separator: the string is scanned from the left, every
  occurrence of \<open>sep\<close> found closes the current segment and the scan goes on behind it.
  \<open>cur\<close> holds the current segment, reversed.  (Python raises \<open>ValueError\<close> for an empty
  separator; the only separator of this module is the literal \<^verbatim>\<open>" :: "\<close>, and the scan
  below treats an empty separator as never matching.)
\<close>

function split_scan :: "string \<Rightarrow> string \<Rightarrow> string \<Rightarrow> string list" where
  "split_scan sep cur [] = [rev cur]"
| "split_scan sep cur (c # cs) =
     (if sep \<noteq> [] \<and> startswith (c # cs) sep
      then rev cur # split_scan sep [] (drop (length sep) (c # cs))
      else split_scan sep (c # cur) cs)"
  by pat_completeness auto
termination
  by (relation "measure (\<lambda>(sep, cur, s). length s)") (auto simp: Suc_diff_le)

definition str_split :: "string \<Rightarrow> string \<Rightarrow> string list" where
  "str_split s sep = split_scan sep [] s"

text \<open>\<^verbatim>\<open>sep.join(xs)\<close>.\<close>

fun join :: "string \<Rightarrow> string list \<Rightarrow> string" where
  "join sep [] = []"
| "join sep [x] = x"
| "join sep (x # y # ys) = x @ sep @ join sep (y # ys)"

text \<open>
  Lower-casing of the ASCII letters: \<open>A\<close> to \<open>Z\<close> (codes 65 to 90) move to \<open>a\<close> to \<open>z\<close>,
  every other byte stays.  It is what the comparison of header names needs (see
  \<open>msg_get\<close> below) and what \<^verbatim>\<open>str.lower\<close> does to a string of ASCII characters; the
  builtin \<^verbatim>\<open>str.lower\<close> itself, which also maps letters outside ASCII, is a parameter of
  the environment.
\<close>

definition ascii_lower_char :: "char \<Rightarrow> char" where
  "ascii_lower_char c =
     (let n = (of_char c :: nat) in if 65 \<le> n \<and> n \<le> 90 then char_of (n + 32) else c)"

definition ascii_lower :: "string \<Rightarrow> string" where
  "ascii_lower s = map ascii_lower_char s"

section \<open>Classifier parser\<close>

definition UNKNOWN :: string where
  "UNKNOWN = ''UNKNOWN''"

text \<open>
  The loop of \<^verbatim>\<open>licenseFromClassifierlist\<close>: \<open>licenses\<close> is the list built so far, and a
  label is appended at its end.
\<close>

fun collect_licenses :: "string list \<Rightarrow> string list \<Rightarrow> string list" where
  "collect_licenses licenses [] = licenses"
| "collect_licenses licenses (val # rest) =
     (if startswith val ''License''
      then (let lice = last (str_split val '' :: '')
            in if lice \<noteq> ''OSI Approved''
               then collect_licenses (licenses @ [lice]) rest
               else collect_licenses licenses rest)
      else collect_licenses licenses rest)"

definition licenseFromClassifierlist :: "string list \<Rightarrow> string" where
  "licenseFromClassifierlist classifiers =
     (let licenses = collect_licenses [] classifiers
      in if length licenses > 0 then join '', '' licenses else UNKNOWN)"

text \<open>
  The classifier parser as the specification words it: keep the strings that begin with
  \<^verbatim>\<open>License\<close>, take the final segment of each, drop \<^verbatim>\<open>OSI Approved\<close>, join what is left.
\<close>

definition spec_labels :: "string list \<Rightarrow> string list" where
  "spec_labels classifiers =
     filter (\<lambda>l. l \<noteq> ''OSI Approved'')
       (map (\<lambda>v. last (str_split v '' :: ''))
         (filter (\<lambda>v. startswith v ''License'') classifiers))"

definition spec_license :: "string list \<Rightarrow> string" where
  "spec_license classifiers =
     (if spec_labels classifiers = [] then ''UNKNOWN''
      else join '', '' (spec_labels classifiers))"

section \<open>Dynamic operations on parsed documents\<close>

text \<open>Sequencing of steps that may raise: the first exception raised ends the sequence.\<close>

definition and_then :: "error + 'a \<Rightarrow> ('a \<Rightarrow> error + 'b) \<Rightarrow> error + 'b" where
  "and_then m f = (case m of Inl e \<Rightarrow> Inl e | Inr x \<Rightarrow> f x)"

text \<open>
  \<^verbatim>\<open>v[key]\<close> with a string key: a dictionary gives the value or raises \<open>KeyError\<close>, every
  other value raises \<open>TypeError\<close>.  (The keys of a parsed dictionary are distinct.)
\<close>

definition getitem :: "json \<Rightarrow> string \<Rightarrow> error + json" where
  "getitem v key =
     (case v of
        JObj kvs \<Rightarrow> (case map_of kvs key of None \<Rightarrow> Inl (KeyError key) | Some x \<Rightarrow> Inr x)
      | _ \<Rightarrow> Inl TypeError)"

text \<open>\<^verbatim>\<open>v[-1]\<close>: the last element of a list, the last character of a string.\<close>

definition getitem_last :: "json \<Rightarrow> error + json" where
  "getitem_last v =
     (case v of
        JArr xs \<Rightarrow> (if xs = [] then Inl IndexError else Inr (last xs))
      | JStr s \<Rightarrow> (if s = [] then Inl IndexError else Inr (JStr [last s]))
      | JObj kvs \<Rightarrow> Inl (KeyError ''-1'')
      | _ \<Rightarrow> Inl TypeError)"

text \<open>\<^verbatim>\<open>key in v\<close> for a string key.\<close>

definition contains :: "json \<Rightarrow> string \<Rightarrow> error + bool" where
  "contains v key =
     (case v of
        JObj kvs \<Rightarrow> Inr (map_of kvs key \<noteq> None)
      | JArr xs \<Rightarrow> Inr (JStr key \<in> set xs)
      | JStr s \<Rightarrow> Inr (str_contains key s)
      | _ \<Rightarrow> Inl TypeError)"

text \<open>\<^verbatim>\<open>v.get(key)\<close>: \<^verbatim>\<open>None\<close> for a missing key; only a dictionary has the method.\<close>

definition dict_get :: "json \<Rightarrow> string \<Rightarrow> error + json" where
  "dict_get v key =
     (case v of
        JObj kvs \<Rightarrow> (case map_of kvs key of None \<Rightarrow> Inr JNull | Some x \<Rightarrow> Inr x)
      | _ \<Rightarrow> Inl AttributeError)"

text \<open>
  The strings that the loop of \<^verbatim>\<open>licenseFromClassifierlist\<close> meets when it is handed a
  parsed value: the elements of a list, each of which must have \<^verbatim>\<open>startswith\<close>; the
  characters of a string; the keys of a dictionary.
\<close>

definition is_JStr :: "json \<Rightarrow> bool" where
  "is_JStr v = (case v of JStr s \<Rightarrow> True | _ \<Rightarrow> False)"

definition the_JStr :: "json \<Rightarrow> string" where
  "the_JStr v = (case v of JStr s \<Rightarrow> s | _ \<Rightarrow> [])"

definition iter_strs :: "json \<Rightarrow> error + string list" where
  "iter_strs v =
     (case v of
        JArr xs \<Rightarrow> (if list_all is_JStr xs then Inr (map the_JStr xs) else Inl AttributeError)
      | JStr s \<Rightarrow> Inr (map (\<lambda>c. [c]) s)
      | JObj kvs \<Rightarrow> Inr (map fst kvs)
      | _ \<Rightarrow> Inl TypeError)"

section \<open>The environment\<close>

text \<open>
  One entry of \<^verbatim>\<open>path.glob("**/*")\<close>: the entry's path as a string, whether it is a
  regular file, and its size.  A package path is modelled by the entries its glob yields.
\<close>

record dirent =
  path_str :: string
  is_file :: bool
  st_size :: int

type_synonym path = "dirent list"

text \<open>
  What the module reads from outside, as a fixed snapshot:
  \<^item> \<open>metadata_metadata\<close>: \<^verbatim>\<open>importlib.metadata.metadata(name)\<close>, the header list of
    the installed distribution or an exception (\<open>PackageNotFoundError\<close> when absent);
  \<^item> \<open>resources_files\<close>: \<^verbatim>\<open>importlib.resources.files(name)\<close>, the package's file tree
    or an exception (\<open>TypeError\<close> when the name is not a package with a file tree,
    \<open>ModuleNotFoundError\<close> when nothing of that name can be imported);
  \<^item> \<open>requests_get\<close>: \<^verbatim>\<open>requests.get(url, timeout=60)\<close>, the response body or an
    exception;
  \<^item> \<open>response_json\<close>: \<^verbatim>\<open>request.json()\<close> on a body;
  \<^item> \<open>str_lower\<close>: the builtin \<^verbatim>\<open>str.lower\<close>;
  \<^item> \<open>int_of_str\<close>: the builtin \<^verbatim>\<open>int\<close> on a string;
  \<^item> \<open>str_of_json\<close>: the builtin \<^verbatim>\<open>str\<close> on a value that is not a string, as an
    f-string applies it.
\<close>

record env =
  metadata_metadata :: "string \<Rightarrow> error + (string \<times> string) list"
  resources_files :: "string \<Rightarrow> error + path"
  requests_get :: "string \<Rightarrow> error + string"
  response_json :: "string \<Rightarrow> error + json"
  str_lower :: "string \<Rightarrow> string"
  int_of_str :: "string \<Rightarrow> error + int"
  str_of_json :: "json \<Rightarrow> string"

text \<open>The URLs requested so far, oldest first.\<close>

type_synonym net_log = "string list"

text \<open>\<^verbatim>\<open>int(v)\<close>.\<close>

definition py_int :: "env \<Rightarrow> json \<Rightarrow> error + int" where
  "py_int env v =
     (case v of
        JInt n \<Rightarrow> Inr n
      | JBool b \<Rightarrow> Inr (if b then 1 else 0)
      | JStr s \<Rightarrow> int_of_str env s
      | _ \<Rightarrow> Inl TypeError)"

text \<open>A value inside an f-string.\<close>

definition format_value :: "env \<Rightarrow> json \<Rightarrow> string" where
  "format_value env v = (case v of JStr s \<Rightarrow> s | _ \<Rightarrow> str_of_json env v)"

text \<open>
  \<^verbatim>\<open>pkgMetadata.get(key, failobj)\<close> on the header list of a distribution: header names
  are compared without regard to case, the first match wins.  The keys asked for in this
  module are the ASCII literals \<^verbatim>\<open>License\<close>, \<^verbatim>\<open>Home-page\<close>, \<^verbatim>\<open>Author\<close>, \<^verbatim>\<open>Name\<close> and
  \<^verbatim>\<open>Version\<close>; no letter outside ASCII lower-cases to a letter of theirs, so a header name
  matches one of them exactly when it does after lower-casing its ASCII letters.
\<close>

fun msg_get :: "(string \<times> string) list \<Rightarrow> string \<Rightarrow> string \<Rightarrow> string" where
  "msg_get [] key failobj = failobj"
| "msg_get ((k, v) # rest) key failobj =
     (if ascii_lower k = ascii_lower key then v else msg_get rest key failobj)"

section \<open>Package records\<close>

text \<open>
  \<open>PackageInfo\<close>.  The registry's fields are stored as they were parsed, so they are
  parsed values here; the local resolver stores strings.
\<close>

record PackageInfo =
  name :: string
  version :: json
  namever :: string
  home_page :: json
  author :: json
  size_bytes :: int
  license :: json

section \<open>Module size\<close>

definition pypi_url :: "string \<Rightarrow> string" where
  "pypi_url pkg = ''https://pypi.org/pypi/'' @ pkg @ ''/json''"

text \<open>The sum of \<^verbatim>\<open>getModuleSize\<close>: regular files whose path does not mention the cache.\<close>

definition tree_size :: "path \<Rightarrow> int" where
  "tree_size p =
     sum_list (map st_size
       (filter (\<lambda>f. is_file f \<and> \<not> str_contains ''__pycache__'' (path_str f)) p))"

text \<open>\<^verbatim>\<open>int(response["urls"][-1]["size"])\<close>.\<close>

definition last_url_size :: "env \<Rightarrow> json \<Rightarrow> error + int" where
  "last_url_size env response =
     and_then (getitem response ''urls'') (\<lambda>urls.
     and_then (getitem_last urls) (\<lambda>u.
     and_then (getitem u ''size'') (\<lambda>s. py_int env s)))"

text \<open>
  \<^verbatim>\<open>requests.get(url, timeout=60)\<close> followed by \<^verbatim>\<open>.json()\<close>: one request, logged whether
  or not it succeeds.
\<close>

definition fetch_json :: "env \<Rightarrow> string \<Rightarrow> net_log \<Rightarrow> (error + json) \<times> net_log" where
  "fetch_json env url lg =
     (case requests_get env url of
        Inl e \<Rightarrow> (Inl e, lg @ [url])
      | Inr request \<Rightarrow> (response_json env request, lg @ [url]))"

definition getModuleSize :: "env \<Rightarrow> path \<Rightarrow> string \<Rightarrow> net_log \<Rightarrow> (error + int) \<times> net_log" where
  "getModuleSize env p nm lg =
     (let sz = tree_size p
      in if sz > 0 then (Inr sz, lg)
         else (case fetch_json env (pypi_url nm) lg of
                 (Inl e, lg') \<Rightarrow> (Inl e, lg')
               | (Inr response, lg') \<Rightarrow> (last_url_size env response, lg')))"

section \<open>Local resolver\<close>

text \<open>
  The inner \<^verbatim>\<open>try\<close> of \<^verbatim>\<open>getPackagesFromLocal\<close>: \<open>size\<close> starts at 0 and keeps it when
  \<^verbatim>\<open>resources.files\<close> or \<^verbatim>\<open>getModuleSize\<close> raises \<open>TypeError\<close>; any other exception
  leaves the inner \<^verbatim>\<open>try\<close>.
\<close>

definition local_size :: "env \<Rightarrow> string \<Rightarrow> string \<Rightarrow> net_log \<Rightarrow> (error + int) \<times> net_log" where
  "local_size env requirement nm lg =
     (case resources_files env requirement of
        Inl e \<Rightarrow> (if e = TypeError then Inr 0 else Inl e, lg)
      | Inr packagePath \<Rightarrow>
          (case getModuleSize env packagePath nm lg of
             (Inl e, lg') \<Rightarrow> (if e = TypeError then Inr 0 else Inl e, lg')
           | (Inr n, lg') \<Rightarrow> (Inr n, lg')))"

text \<open>The dictionary appended to \<open>pkgInfo\<close>.\<close>

definition local_record :: "(string \<times> string) list \<Rightarrow> int \<Rightarrow> PackageInfo" where
  "local_record pkgMetadata sz =
     (let lice0 = licenseFromClassifierlist
                    (map snd (filter (\<lambda>(key, val). key = ''Classifier'') pkgMetadata));
          lice = (if lice0 = UNKNOWN then msg_get pkgMetadata ''License'' UNKNOWN else lice0);
          homePage = msg_get pkgMetadata ''Home-page'' UNKNOWN;
          auth = msg_get pkgMetadata ''Author'' UNKNOWN;
          nm = msg_get pkgMetadata ''Name'' UNKNOWN;
          ver = msg_get pkgMetadata ''Version'' UNKNOWN
      in \<lparr> name = nm, version = JStr ver, namever = nm @ ''-'' @ ver,
           home_page = JStr homePage, author = JStr auth, size_bytes = sz,
           license = JStr lice \<rparr>)"

text \<open>The exceptions of the outer \<^verbatim>\<open>except\<close> clause.\<close>

definition not_found :: "error \<Rightarrow> bool" where
  "not_found e = (e = PackageNotFoundError \<or> e = ModuleNotFoundError)"

text \<open>
  One round of the loop of \<^verbatim>\<open>getPackagesFromLocal\<close>: \<open>Inr None\<close> when the name is
  skipped, \<open>Inr (Some info)\<close> when a record is appended, \<open>Inl e\<close> when \<open>e\<close> leaves the
  function.
\<close>

definition local_info ::
  "env \<Rightarrow> string \<Rightarrow> net_log \<Rightarrow> (error + PackageInfo option) \<times> net_log" where
  "local_info env requirement lg =
     (case metadata_metadata env requirement of
        Inl e \<Rightarrow> (if not_found e then Inr None else Inl e, lg)
      | Inr pkgMetadata \<Rightarrow>
          (case local_size env requirement (msg_get pkgMetadata ''Name'' UNKNOWN) lg of
             (Inl e, lg') \<Rightarrow> (if not_found e then Inr None else Inl e, lg')
           | (Inr sz, lg') \<Rightarrow> (Inr (Some (local_record pkgMetadata sz)), lg')))"

fun local_loop ::
  "env \<Rightarrow> PackageInfo list \<Rightarrow> string list \<Rightarrow> net_log \<Rightarrow> (error + PackageInfo list) \<times> net_log"
where
  "local_loop env pkgInfo [] lg = (Inr pkgInfo, lg)"
| "local_loop env pkgInfo (requirement # rest) lg =
     (case local_info env requirement lg of
        (Inl e, lg') \<Rightarrow> (Inl e, lg')
      | (Inr None, lg') \<Rightarrow> local_loop env pkgInfo rest lg'
      | (Inr (Some info), lg') \<Rightarrow> local_loop env (pkgInfo @ [info]) rest lg')"

definition getPackagesFromLocal ::
  "env \<Rightarrow> string list \<Rightarrow> net_log \<Rightarrow> (error + PackageInfo list) \<times> net_log" where
  "getPackagesFromLocal env requirements lg = local_loop env [] requirements lg"

section \<open>Remote resolver\<close>

text \<open>
  The dictionary that \<^verbatim>\<open>packageInfoFromPypi\<close> builds from a parsed response, its entries
  evaluated in the order they are written; \<^verbatim>\<open>info["license"]\<close> is read only when the
  classifiers give no license.
\<close>

definition pypi_record :: "env \<Rightarrow> string \<Rightarrow> json \<Rightarrow> error + PackageInfo" where
  "pypi_record env pkg response =
     and_then (getitem response ''info'') (\<lambda>info.
     and_then (getitem info ''classifiers'') (\<lambda>cls.
     and_then (iter_strs cls) (\<lambda>classifiers.
     (let licenseClassifier = licenseFromClassifierlist classifiers in
     and_then (getitem info ''version'') (\<lambda>ver.
     and_then (getitem info ''home_page'') (\<lambda>homePage.
     and_then (getitem info ''author'') (\<lambda>auth.
     and_then (last_url_size env response) (\<lambda>sz.
     and_then (if licenseClassifier \<noteq> UNKNOWN then Inr (JStr licenseClassifier)
               else getitem info ''license'') (\<lambda>lice.
     Inr \<lparr> name = pkg, version = ver, namever = pkg @ '' '' @ format_value env ver,
           home_page = homePage, author = auth, size_bytes = sz, license = lice \<rparr>)))))))))"

text \<open>One round of the loop of \<^verbatim>\<open>packageInfoFromPypi\<close>.\<close>

definition pypi_info :: "env \<Rightarrow> string \<Rightarrow> net_log \<Rightarrow> (error + PackageInfo) \<times> net_log" where
  "pypi_info env pkg lg =
     (case fetch_json env (pypi_url pkg) lg of
        (Inl e, lg') \<Rightarrow> (Inl e, lg')
      | (Inr response, lg') \<Rightarrow> (pypi_record env pkg response, lg'))"

fun pypi_loop ::
  "env \<Rightarrow> PackageInfo list \<Rightarrow> string list \<Rightarrow> net_log \<Rightarrow> (error + PackageInfo list) \<times> net_log"
where
  "pypi_loop env pkgInfo [] lg = (Inr pkgInfo, lg)"
| "pypi_loop env pkgInfo (pkg # rest) lg =
     (case pypi_info env pkg lg of
        (Inl e, lg') \<Rightarrow> (Inl e, lg')
      | (Inr info, lg') \<Rightarrow> pypi_loop env (pkgInfo @ [info]) rest lg')"

definition packageInfoFromPypi ::
  "env \<Rightarrow> string list \<Rightarrow> net_log \<Rightarrow> (error + PackageInfo list) \<times> net_log" where
  "packageInfoFromPypi env requirements lg = pypi_loop env [] requirements lg"

section \<open>Aggregator\<close>

text \<open>\<^verbatim>\<open>xs.remove(x)\<close>: the first occurrence goes, \<open>ValueError\<close> when there is none.\<close>

definition list_remove :: "'a list \<Rightarrow> 'a \<Rightarrow> error + 'a list" where
  "list_remove xs x = (if x \<in> set xs then Inr (remove1 x xs) else Inl ValueError)"

text \<open>
  The loop over \<open>localReqs\<close> of \<^verbatim>\<open>getPackages\<close>.  The list \<open>reqs\<close> is the caller's own
  object, so the list as it stands when the loop ends or raises is returned with the
  outcome.
\<close>

fun remove_loop ::
  "env \<Rightarrow> string list \<Rightarrow> PackageInfo list \<Rightarrow> (error + unit) \<times> string list" where
  "remove_loop env reqs [] = (Inr (), reqs)"
| "remove_loop env reqs (localReq # rest) =
     (case list_remove reqs (str_lower env (name localReq)) of
        Inl e \<Rightarrow> (Inl e, reqs)
      | Inr reqs' \<Rightarrow> remove_loop env reqs' rest)"

text \<open>
  \<^verbatim>\<open>getPackages\<close>: the outcome, the caller's list \<open>reqs\<close> afterwards, and the request
  log.
\<close>

definition getPackages ::
  "env \<Rightarrow> string list \<Rightarrow> net_log \<Rightarrow> (error + PackageInfo list) \<times> string list \<times> net_log" where
  "getPackages env reqs lg =
     (case getPackagesFromLocal env reqs lg of
        (Inl e, lg1) \<Rightarrow> (Inl e, reqs, lg1)
      | (Inr localReqs, lg1) \<Rightarrow>
          (case remove_loop env reqs localReqs of
             (Inl e, reqs1) \<Rightarrow> (Inl e, reqs1, lg1)
           | (Inr u, reqs1) \<Rightarrow>
               (case packageInfoFromPypi env reqs1 lg1 of
                  (Inl e, lg2) \<Rightarrow> (Inl e, reqs1, lg2)
                | (Inr onlineReqs, lg2) \<Rightarrow> (Inr (localReqs @ onlineReqs), reqs1, lg2))))"

section \<open>Self-metadata reader\<close>

text \<open>
  A parsed \<^verbatim>\<open>setup.cfg\<close>: for each section that exists, the options it answers for
  (option names as the parser stores them, in lower case).
\<close>

type_synonym config = "string \<Rightarrow> (string \<Rightarrow> string option) option"

text \<open>
  The working directory: for each of the two files, \<open>None\<close> when it does not exist and
  otherwise what parsing it gives (\<^verbatim>\<open>config.read\<close>, and \<^verbatim>\<open>read_text\<close> followed by
  \<^verbatim>\<open>tomli.loads\<close>).
\<close>

record project_dir =
  setup_cfg :: "(error + config) option"
  pyproject_toml :: "(error + json) option"

text \<open>
  What \<^verbatim>\<open>getClassifiersLicense\<close> returns: the attribute dictionary (\<^verbatim>\<open>__dict__\<close>) of the
  proxy of a section of the configuration, or a value of the manifest, or the default.
\<close>

datatype metaData = SectionProxyDict string | Table json

definition default_metaData :: metaData where
  "default_metaData = Table (JObj [(''classifiers'', JArr []), (''license'', JStr [])])"

text \<open>The part of \<^verbatim>\<open>getClassifiersLicense\<close> that reads \<^verbatim>\<open>pyproject.toml\<close>.\<close>

definition from_pyproject :: "project_dir \<Rightarrow> error + metaData" where
  "from_pyproject d =
     (case pyproject_toml d of
        None \<Rightarrow> Inr default_metaData
      | Some parsed \<Rightarrow>
          and_then parsed (\<lambda>pyproject.
          and_then (getitem pyproject ''tool'') (\<lambda>tool.
          and_then (contains tool ''poetry'') (\<lambda>has_poetry.
          if has_poetry then and_then (getitem tool ''poetry'') (\<lambda>t. Inr (Table t))
          else
          and_then (contains tool ''flit'') (\<lambda>has_flit.
          if has_flit
          then and_then (getitem tool ''flit'') (\<lambda>flit.
               and_then (getitem flit ''metadata'') (\<lambda>t. Inr (Table t)))
          else
          and_then (dict_get pyproject ''project'') (\<lambda>project.
          if project \<noteq> JNull
          then and_then (getitem pyproject ''project'') (\<lambda>t. Inr (Table t))
          else Inr default_metaData))))))"

definition getClassifiersLicense :: "project_dir \<Rightarrow> error + metaData" where
  "getClassifiersLicense d =
     (case setup_cfg d of
        None \<Rightarrow> from_pyproject d
      | Some parsed \<Rightarrow>
          and_then parsed (\<lambda>config.
          (case config ''metadata'' of
             None \<Rightarrow> Inl (KeyError ''metadata'')
           | Some section \<Rightarrow>
               if section ''license'' \<noteq> None then Inr (SectionProxyDict ''metadata'')
               else from_pyproject d)))"

section \<open>Derived notions\<close>

text \<open>
  The outcome of one round of the local resolver and the requests it makes, read off a
  round that starts with an empty log.
\<close>

definition local_result :: "env \<Rightarrow> string \<Rightarrow> error + PackageInfo option" where
  "local_result env requirement = fst (local_info env requirement [])"

definition local_requests :: "env \<Rightarrow> string \<Rightarrow> net_log" where
  "local_requests env requirement = snd (local_info env requirement [])"

text \<open>The record that the local resolver appends for a name, if it appends one.\<close>

definition resolved_info :: "env \<Rightarrow> string \<Rightarrow> PackageInfo option" where
  "resolved_info env requirement =
     (case local_result env requirement of Inr (Some info) \<Rightarrow> Some info | _ \<Rightarrow> None)"

definition resolved_locally :: "env \<Rightarrow> string \<Rightarrow> bool" where
  "resolved_locally env requirement = (resolved_info env requirement \<noteq> None)"

text \<open>The outcome of one round of the remote resolver.\<close>

definition pypi_result :: "env \<Rightarrow> string \<Rightarrow> error + PackageInfo" where
  "pypi_result env pkg = fst (pypi_info env pkg [])"

text \<open>
  \<^verbatim>\<open>setup.cfg\<close> is absent, or it has a \<^verbatim>\<open>[metadata]\<close> section that declares no license:
  the cases in which \<^verbatim>\<open>getClassifiersLicense\<close> goes on to \<^verbatim>\<open>pyproject.toml\<close>.
\<close>

definition no_setup_license :: "project_dir \<Rightarrow> bool" where
  "no_setup_license d =
     (case setup_cfg d of
        None \<Rightarrow> True
      | Some (Inl e) \<Rightarrow> False
      | Some (Inr config) \<Rightarrow>
          (case config ''metadata'' of
             None \<Rightarrow> False
           | Some section \<Rightarrow> section ''license'' = None))"

section \<open>Example data\<close>

text \<open>A directory that holds a \<^verbatim>\<open>pyproject.toml\<close> and no \<^verbatim>\<open>setup.cfg\<close>.\<close>

definition manifest_only :: "json \<Rightarrow> project_dir" where
  "manifest_only doc = \<lparr> setup_cfg = None, pyproject_toml = Some (Inr doc) \<rparr>"

definition poetry_table :: json where
  "poetry_table = JObj [(''name'', JStr ''demo''), (''license'', JStr ''GPL-3.0-only'')]"

definition project_table :: json where
  "project_table = JObj [(''name'', JStr ''demo''), (''license'', JStr ''MIT'')]"

definition both_tables :: json where
  "both_tables =
     JObj [(''project'', project_table), (''tool'', JObj [(''poetry'', poetry_table)])]"

definition project_only :: json where
  "project_only = JObj [(''project'', project_table)]"

text \<open>
  An environment with four installed distributions and a registry that knows two names.
  \<^item> \<^verbatim>\<open>Flask\<close> is imported as \<^verbatim>\<open>flask\<close>; \<^verbatim>\<open>PyQt5\<close> is imported as \<^verbatim>\<open>PyQt5\<close>.  The
    metadata store finds a distribution under either spelling, an import does not.
  \<^item> \<^verbatim>\<open>six\<close> is a single module, with no file tree of its own.
  \<^item> \<^verbatim>\<open>stubs\<close> has nothing but a cache file in its tree.
  \<^item> The registry answers for \<^verbatim>\<open>leftpad\<close> and \<^verbatim>\<open>PyQt5\<close>, answers \<^verbatim>\<open>nosuch\<close> with a
    document that has no \<^verbatim>\<open>info\<close>, and is out of reach for every other name.
\<close>

definition flask_metadata :: "(string \<times> string) list" where
  "flask_metadata =
     [(''Name'', ''Flask''), (''Version'', ''2.2.5''), (''Author'', ''Armin Ronacher''),
      (''Classifier'', ''Framework :: Flask''),
      (''Classifier'', ''License :: OSI Approved :: BSD License'')]"

definition pyqt5_metadata :: "(string \<times> string) list" where
  "pyqt5_metadata =
     [(''Name'', ''PyQt5''), (''Version'', ''5.15.9''), (''License'', ''GPL v3'')]"

definition six_metadata :: "(string \<times> string) list" where
  "six_metadata =
     [(''Name'', ''six''), (''Version'', ''1.16.0''),
      (''Classifier'', ''License :: OSI Approved :: MIT License'')]"

definition stubs_metadata :: "(string \<times> string) list" where
  "stubs_metadata = [(''Name'', ''stubs''), (''Version'', ''0.1'')]"

definition flask_tree :: path where
  "flask_tree =
     [\<lparr> path_str = ''site-packages/flask/app.py'', is_file = True, st_size = 900 \<rparr>,
      \<lparr> path_str = ''site-packages/flask/__pycache__/app.pyc'', is_file = True,
         st_size = 700 \<rparr>,
      \<lparr> path_str = ''site-packages/flask/json'', is_file = False, st_size = 4096 \<rparr>]"

definition pyqt5_tree :: path where
  "pyqt5_tree =
     [\<lparr> path_str = ''site-packages/PyQt5/QtCore.so'', is_file = True, st_size = 5000 \<rparr>]"

definition stubs_tree :: path where
  "stubs_tree =
     [\<lparr> path_str = ''site-packages/stubs/__pycache__/x.pyc'', is_file = True,
         st_size = 300 \<rparr>]"

definition registry_doc :: "string \<Rightarrow> int \<Rightarrow> json" where
  "registry_doc ver sz =
     JObj [(''info'',
            JObj [(''author'', JNull),
                  (''classifiers'', JArr [JStr ''License :: OSI Approved :: MIT License'']),
                  (''home_page'', JNull),
                  (''license'', JStr ''MIT''),
                  (''version'', JStr ver)]),
           (''urls'', JArr [JObj [(''size'', JInt 10)], JObj [(''size'', JInt sz)]])]"

definition demo_env :: env where
  "demo_env =
     \<lparr> metadata_metadata =
         (\<lambda>n. if n = ''flask'' \<or> n = ''Flask'' then Inr flask_metadata
              else if n = ''pyqt5'' \<or> n = ''PyQt5'' then Inr pyqt5_metadata
              else if n = ''six'' then Inr six_metadata
              else if n = ''stubs'' then Inr stubs_metadata
              else Inl PackageNotFoundError),
       resources_files =
         (\<lambda>n. if n = ''flask'' then Inr flask_tree
              else if n = ''PyQt5'' then Inr pyqt5_tree
              else if n = ''stubs'' then Inr stubs_tree
              else if n = ''six'' then Inl TypeError
              else Inl ModuleNotFoundError),
       requests_get =
         (\<lambda>url. if url = pypi_url ''leftpad'' then Inr ''leftpad-body''
                else if url = pypi_url ''PyQt5'' then Inr ''pyqt5-body''
                else if url = pypi_url ''nosuch'' then Inr ''not-found-body''
                else Inl RequestException),
       response_json =
         (\<lambda>body. if body = ''leftpad-body'' then Inr (registry_doc ''0.0.1'' 2048)
                 else if body = ''pyqt5-body'' then Inr (registry_doc ''5.15.9'' 3000000)
                 else if body = ''not-found-body''
                      then Inr (JObj [(''message'', JStr ''Not Found'')])
                 else Inl JSONDecodeError),
       str_lower = ascii_lower,
       int_of_str = (\<lambda>s. Inl ValueError),
       str_of_json = (\<lambda>v. ''None'') \<rparr>"

definition pyqt5_remote :: PackageInfo where
  "pyqt5_remote =
     \<lparr> name = ''PyQt5'', version = JStr ''5.15.9'', namever = ''PyQt5 5.15.9'',
       home_page = JNull, author = JNull, size_bytes = 3000000,
       license = JStr ''MIT License'' \<rparr>"

definition leftpad_remote :: PackageInfo where
  "leftpad_remote =
     \<lparr> name = ''leftpad'', version = JStr ''0.0.1'', namever = ''leftpad 0.0.1'',
       home_page = JNull, author = JNull, size_bytes = 2048,
       license = JStr ''MIT License'' \<rparr>"

text \<open>
  \<open>demo_env\<close> with a registry that also answers for the name \<open>pkg\<close>, with version \<open>ver\<close>
  and \<open>sz\<close> as the size of the last file.
\<close>

definition registry_env :: "string \<Rightarrow> string \<Rightarrow> int \<Rightarrow> env" where
  "registry_env pkg ver sz =
     demo_env
       \<lparr> requests_get :=
           (\<lambda>url. if url = pypi_url pkg then Inr (''body of '' @ pkg)
                  else requests_get demo_env url),
         response_json :=
           (\<lambda>body. if body = ''body of '' @ pkg then Inr (registry_doc ver sz)
                   else response_json demo_env body) \<rparr>"

definition flask_remote :: PackageInfo where
  "flask_remote =
     \<lparr> name = ''Flask'', version = JStr ''2.2.5'', namever = ''Flask 2.2.5'',
       home_page = JNull, author = JNull, size_bytes = 100000,
       license = JStr ''MIT License'' \<rparr>"

section \<open>Properties of the classifier parser\<close>

lemma split_scan_nonempty: "split_scan sep cur s \<noteq> []"
  by (induction sep cur s rule: split_scan.induct) auto

lemma str_split_nonempty: "str_split s sep \<noteq> []"
  by (simp add: str_split_def split_scan_nonempty)

lemma collect_licenses_acc:
  "collect_licenses acc cs = acc @ spec_labels cs"
  by (induction cs arbitrary: acc) (auto simp: spec_labels_def Let_def)

text \<open>
  Claim C1.  For every list of classifier strings, \<open>licenseFromClassifierlist\<close> returns
  the labels of the specification (final segments of the strings that begin with
  \<^verbatim>\<open>License\<close>, without \<^verbatim>\<open>OSI Approved\<close>, in the order met) joined by a comma and a space,
  and the sentinel \<^verbatim>\<open>UNKNOWN\<close> when there is no label, as for the empty list.
\<close>

theorem licenseFromClassifierlist_spec:
  "licenseFromClassifierlist classifiers = spec_license classifiers"
  by (simp add: licenseFromClassifierlist_def spec_license_def collect_licenses_acc UNKNOWN_def)

lemma licenseFromClassifierlist_example:
  "licenseFromClassifierlist [''License :: OSI Approved'', ''License :: MIT''] = ''MIT''"
  by (simp add: licenseFromClassifierlist_def str_split_def startswith_def)

lemma licenseFromClassifierlist_no_license:
  "\<forall>v\<in>set classifiers. \<not> startswith v ''License'' \<Longrightarrow>
     licenseFromClassifierlist classifiers = ''UNKNOWN''"
  by (simp add: licenseFromClassifierlist_def collect_licenses_acc spec_labels_def UNKNOWN_def
        filter_False)

section \<open>Properties of the self-metadata reader\<close>

lemma getClassifiersLicense_falls_through:
  "no_setup_license d \<Longrightarrow> getClassifiersLicense d = from_pyproject d"
  by (auto simp: no_setup_license_def getClassifiersLicense_def and_then_def
           split: option.splits sum.splits)

lemma no_setup_license_manifest_only: "no_setup_license (manifest_only doc)"
  by (simp add: no_setup_license_def manifest_only_def)

text \<open>
  Claim C4, as stated: with no license in \<^verbatim>\<open>setup.cfg\<close> and both a \<^verbatim>\<open>project\<close> table and
  a \<^verbatim>\<open>tool.poetry\<close> table in \<^verbatim>\<open>pyproject.toml\<close>, the \<^verbatim>\<open>project\<close> table is returned.
  It fails: for the manifest \<open>both_tables\<close> the \<^verbatim>\<open>tool.poetry\<close> table is returned, and
  the \<^verbatim>\<open>project\<close> table is not.
\<close>

theorem getClassifiersLicense_both_tables_poetry:
  "getClassifiersLicense (manifest_only both_tables) = Inr (Table poetry_table)
   \<and> getClassifiersLicense (manifest_only both_tables) \<noteq> Inr (Table project_table)"
  by (simp add: getClassifiersLicense_def from_pyproject_def manifest_only_def both_tables_def
        and_then_def getitem_def contains_def poetry_table_def project_table_def)

text \<open>
  Claim C4, amended.  When \<^verbatim>\<open>setup.cfg\<close> is absent or its \<^verbatim>\<open>[metadata]\<close> section declares
  no license, and \<^verbatim>\<open>pyproject.toml\<close> has a \<^verbatim>\<open>tool\<close> table, the order of precedence is
  \<^verbatim>\<open>tool.poetry\<close>, then \<^verbatim>\<open>tool.flit.metadata\<close>, then \<^verbatim>\<open>project\<close>, then the empty
  default: a \<^verbatim>\<open>tool.poetry\<close> table is returned whatever else the manifest holds, and the
  \<^verbatim>\<open>project\<close> table, checked last, is returned only when \<^verbatim>\<open>tool\<close> has neither
  \<^verbatim>\<open>poetry\<close> nor \<^verbatim>\<open>flit\<close>.
\<close>

theorem getClassifiersLicense_precedence:
  assumes "no_setup_license d"
    and "pyproject_toml d = Some (Inr (JObj kvs))"
    and "map_of kvs ''tool'' = Some (JObj t)"
  shows "(map_of t ''poetry'' = Some q \<longrightarrow> getClassifiersLicense d = Inr (Table q))
       \<and> (map_of t ''poetry'' = None \<and> map_of t ''flit'' = Some (JObj f) \<and>
            map_of f ''metadata'' = Some m \<longrightarrow>
            getClassifiersLicense d = Inr (Table m))
       \<and> (map_of t ''poetry'' = None \<and> map_of t ''flit'' = None \<and>
            map_of kvs ''project'' = Some p \<and> p \<noteq> JNull \<longrightarrow>
            getClassifiersLicense d = Inr (Table p))
       \<and> (map_of t ''poetry'' = None \<and> map_of t ''flit'' = None \<and>
            map_of kvs ''project'' = None \<longrightarrow>
            getClassifiersLicense d = Inr default_metaData)"
  using assms
  by (simp add: getClassifiersLicense_falls_through from_pyproject_def and_then_def getitem_def
        contains_def dict_get_def)

theorem getClassifiersLicense_precedence_witness:
  "no_setup_license (manifest_only both_tables)
   \<and> pyproject_toml (manifest_only both_tables)
       = Some (Inr (JObj [(''project'', project_table),
                          (''tool'', JObj [(''poetry'', poetry_table)])]))
   \<and> map_of [(''project'', project_table), (''tool'', JObj [(''poetry'', poetry_table)])]
        ''project'' = Some project_table
   \<and> getClassifiersLicense (manifest_only both_tables) = Inr (Table poetry_table)"
proof -
  have a: "no_setup_license (manifest_only both_tables)"
    by (rule no_setup_license_manifest_only)
  have b: "pyproject_toml (manifest_only both_tables)
             = Some (Inr (JObj [(''project'', project_table),
                                (''tool'', JObj [(''poetry'', poetry_table)])]))"
    by (simp add: manifest_only_def both_tables_def)
  have c: "map_of [(''project'', project_table), (''tool'', JObj [(''poetry'', poetry_table)])]
             ''tool'' = Some (JObj [(''poetry'', poetry_table)])"
    by simp
  from getClassifiersLicense_precedence [OF a b c, of poetry_table] a b
  show ?thesis by simp
qed

text \<open>
  Claim C9.  A \<^verbatim>\<open>pyproject.toml\<close> that parses and has no top-level \<^verbatim>\<open>tool\<close> key, with
  no license declared in \<^verbatim>\<open>setup.cfg\<close>, makes \<^verbatim>\<open>getClassifiersLicense\<close> raise
  \<open>KeyError\<close> for \<^verbatim>\<open>tool\<close>: neither the \<^verbatim>\<open>project\<close> table nor the default is returned.
  This holds for every such manifest, and \<open>project_only\<close> is one.
\<close>

theorem getClassifiersLicense_no_tool:
  assumes "no_setup_license d"
    and "pyproject_toml d = Some (Inr (JObj kvs))"
    and "map_of kvs ''tool'' = None"
  shows "getClassifiersLicense d = Inl (KeyError ''tool'')"
  using assms
  by (simp add: getClassifiersLicense_falls_through from_pyproject_def and_then_def getitem_def)

theorem getClassifiersLicense_no_tool_witness:
  "no_setup_license (manifest_only project_only)
   \<and> pyproject_toml (manifest_only project_only) = Some (Inr (JObj [(''project'', project_table)]))
   \<and> map_of [(''project'', project_table)] ''tool'' = None
   \<and> map_of [(''project'', project_table)] ''project'' = Some project_table
   \<and> getClassifiersLicense (manifest_only project_only) = Inl (KeyError ''tool'')"
proof -
  have a: "no_setup_license (manifest_only project_only)"
    by (rule no_setup_license_manifest_only)
  have b: "pyproject_toml (manifest_only project_only)
             = Some (Inr (JObj [(''project'', project_table)]))"
    by (simp add: manifest_only_def project_only_def)
  have c: "map_of [(''project'', project_table)] ''tool'' = None"
    by simp
  from getClassifiersLicense_no_tool [OF a b c] a b c show ?thesis by simp
qed

section \<open>Properties of the local resolver\<close>

text \<open>A round only appends to the request log; its outcome does not depend on the log.\<close>

lemma getModuleSize_log:
  "getModuleSize env p nm lg =
     (fst (getModuleSize env p nm []), lg @ snd (getModuleSize env p nm []))"
  by (simp add: getModuleSize_def fetch_json_def Let_def split: sum.splits)

lemma local_size_log:
  "local_size env r nm lg = (fst (local_size env r nm []), lg @ snd (local_size env r nm []))"
proof (cases "resources_files env r")
  case (Inl e)
  then show ?thesis by (simp add: local_size_def)
next
  case (Inr p)
  obtain res l where g: "getModuleSize env p nm [] = (res, l)"
    by (cases "getModuleSize env p nm []")
  have "getModuleSize env p nm lg = (res, lg @ l)"
    using getModuleSize_log [of env p nm lg] g by simp
  with Inr g show ?thesis by (cases res) (simp_all add: local_size_def)
qed

lemma local_info_log:
  "local_info env r lg = (local_result env r, lg @ local_requests env r)"
proof (cases "metadata_metadata env r")
  case (Inl e)
  then show ?thesis by (simp add: local_info_def local_result_def local_requests_def)
next
  case (Inr md)
  let ?nm = "msg_get md ''Name'' UNKNOWN"
  obtain res l where g: "local_size env r ?nm [] = (res, l)"
    by (cases "local_size env r ?nm []")
  have "local_size env r ?nm lg = (res, lg @ l)"
    using local_size_log [of env r ?nm lg] g by simp
  with Inr g show ?thesis
    by (cases res) (simp_all add: local_info_def local_result_def local_requests_def)
qed

text \<open>When the loop ends normally, it has appended the records of the resolved names.\<close>

lemma local_loop_Inr:
  "local_loop env acc rs lg = (Inr infos, lg') \<Longrightarrow>
     infos = acc @ List.map_filter (resolved_info env) rs"
proof (induction rs arbitrary: acc lg)
  case Nil
  then show ?case by (simp add: List.map_filter_simps)
next
  case (Cons r rs)
  show ?case
  proof (cases "local_result env r")
    case (Inl e)
    with Cons.prems show ?thesis by (simp add: local_info_log)
  next
    case (Inr opt)
    show ?thesis
    proof (cases opt)
      case None
      with Inr Cons.prems
      have "local_loop env acc rs (lg @ local_requests env r) = (Inr infos, lg')"
        by (simp add: local_info_log)
      from Cons.IH [OF this] Inr None show ?thesis
        by (simp add: List.map_filter_simps resolved_info_def)
    next
      case (Some info)
      with Inr Cons.prems
      have "local_loop env (acc @ [info]) rs (lg @ local_requests env r) = (Inr infos, lg')"
        by (simp add: local_info_log)
      from Cons.IH [OF this] Inr Some show ?thesis
        by (simp add: List.map_filter_simps resolved_info_def)
    qed
  qed
qed

lemma local_loop_skip:
  "local_info env r = (\<lambda>lg. (Inr None, lg)) \<Longrightarrow>
     local_loop env acc (xs @ r # ys) lg = local_loop env acc (xs @ ys) lg"
proof (induction xs arbitrary: acc lg)
  case Nil
  then show ?case by simp
next
  case (Cons x xs)
  then show ?case by (simp split: prod.splits sum.splits option.splits)
qed

text \<open>
  Claim C5.  A requirement whose metadata lookup signals not-found raises nothing, adds
  no record and makes no request: the resolver's outcome on a list is the same with and
  without that name.  When the resolver returns, its output is one record for each name
  that resolved, in order, and nothing for the others.
\<close>

theorem getPackagesFromLocal_not_found:
  assumes "metadata_metadata env r = Inl PackageNotFoundError"
  shows "local_info env r lg = (Inr None, lg)
       \<and> getPackagesFromLocal env (xs @ r # ys) lg = getPackagesFromLocal env (xs @ ys) lg
       \<and> resolved_info env r = None
       \<and> (\<forall>infos lg'. getPackagesFromLocal env reqs lg = (Inr infos, lg') \<longrightarrow>
            infos = List.map_filter (resolved_info env) reqs)"
proof -
  have a: "local_info env r = (\<lambda>lg. (Inr None, lg))"
    using assms by (auto simp: local_info_def not_found_def)
  have b: "resolved_info env r = None"
    by (simp add: resolved_info_def local_result_def a)
  have c: "\<forall>infos lg'. getPackagesFromLocal env reqs lg = (Inr infos, lg') \<longrightarrow>
            infos = List.map_filter (resolved_info env) reqs"
    using local_loop_Inr [of env "[]" reqs lg] by (simp add: getPackagesFromLocal_def)
  show ?thesis
    using a b c local_loop_skip [OF a] by (simp add: getPackagesFromLocal_def)
qed

theorem getPackagesFromLocal_not_found_witness:
  "metadata_metadata demo_env ''leftpad'' = Inl PackageNotFoundError
   \<and> local_info demo_env ''leftpad'' [] = (Inr None, [])
   \<and> getPackagesFromLocal demo_env [''flask'', ''leftpad'', ''six''] []
       = getPackagesFromLocal demo_env [''flask'', ''six''] []
   \<and> getPackagesFromLocal demo_env [''flask'', ''leftpad'', ''six''] []
       = (Inr [local_record flask_metadata 900, local_record six_metadata 0], [])"
proof -
  have h: "metadata_metadata demo_env ''leftpad'' = Inl PackageNotFoundError"
    by (simp add: demo_env_def)
  have v: "getPackagesFromLocal demo_env [''flask'', ''six''] []
             = (Inr [local_record flask_metadata 900, local_record six_metadata 0], [])"
    by code_simp
  from getPackagesFromLocal_not_found [OF h, of "[]" "[''flask'']" "[''six'']"] h v
  show ?thesis by simp
qed

text \<open>
  Claim C7.  When the metadata of a requirement is found and \<^verbatim>\<open>resources.files\<close> raises
  \<open>TypeError\<close> for it, the resolver raises nothing and appends the package's record with
  size 0.
\<close>

theorem getPackagesFromLocal_size_unsupported:
  assumes "metadata_metadata env r = Inr md"
    and "resources_files env r = Inl TypeError"
  shows "local_info env r lg = (Inr (Some (local_record md 0)), lg)
       \<and> size_bytes (local_record md 0) = 0
       \<and> getPackagesFromLocal env [r] lg = (Inr [local_record md 0], lg)"
  using assms
  by (simp add: getPackagesFromLocal_def local_info_def local_size_def local_record_def Let_def)

theorem getPackagesFromLocal_size_unsupported_witness:
  "metadata_metadata demo_env ''six'' = Inr six_metadata
   \<and> resources_files demo_env ''six'' = Inl TypeError
   \<and> getPackagesFromLocal demo_env [''six''] [] = (Inr [local_record six_metadata 0], [])
   \<and> size_bytes (local_record six_metadata 0) = 0"
proof -
  have a: "metadata_metadata demo_env ''six'' = Inr six_metadata"
    by (simp add: demo_env_def)
  have b: "resources_files demo_env ''six'' = Inl TypeError"
    by (simp add: demo_env_def)
  from getPackagesFromLocal_size_unsupported [OF a b, of "[]"] a b show ?thesis by simp
qed

text \<open>
  Claim C10, as stated: when the counted files sum to 0 bytes, \<open>getModuleSize\<close> does not
  return 0.  It fails when the registry's last file has size 0: with an empty tree and
  such an answer the function returns 0, and the local resolver records size 0 after
  one request.
\<close>

theorem getModuleSize_registry_zero:
  "tree_size stubs_tree = 0
   \<and> getModuleSize (registry_env ''stubs'' ''0.1'' 0) stubs_tree ''stubs'' []
       = (Inr 0, [pypi_url ''stubs''])
   \<and> getPackagesFromLocal (registry_env ''stubs'' ''0.1'' 0) [''stubs''] []
       = (Inr [local_record stubs_metadata 0], [pypi_url ''stubs''])"
  by code_simp

text \<open>
  Claim C10, amended.  When the files counted by \<^verbatim>\<open>getModuleSize\<close> sum to 0 bytes, the
  function does not return that sum but asks the registry: it makes one request for the
  package's name and, when the answer is a document whose \<^verbatim>\<open>urls\<close> list is not empty and
  whose last entry has the integer \<open>n\<close> as its \<^verbatim>\<open>size\<close>, it returns \<open>n\<close> (which is 0 when
  the registry says 0); an exception of the request or of the parsing of its body leaves
  the function.  The local resolver therefore makes that request: it records the
  registry's number as the size, and an exception of the request leaves the resolver
  unless it is one the resolver catches.
\<close>

theorem getModuleSize_empty_tree:
  assumes "tree_size p = 0"
  shows "(\<forall>body kvs us u n.
            requests_get env (pypi_url nm) = Inr body \<and>
            response_json env body = Inr (JObj kvs) \<and>
            map_of kvs ''urls'' = Some (JArr us) \<and> us \<noteq> [] \<and> last us = JObj u \<and>
            map_of u ''size'' = Some (JInt n) \<longrightarrow>
            getModuleSize env p nm lg = (Inr n, lg @ [pypi_url nm])
            \<and> (\<forall>md r. metadata_metadata env r = Inr md \<and> resources_files env r = Inr p \<and>
                  msg_get md ''Name'' UNKNOWN = nm \<longrightarrow>
                  getPackagesFromLocal env [r] lg
                    = (Inr [local_record md n], lg @ [pypi_url nm])))
       \<and> (\<forall>e. requests_get env (pypi_url nm) = Inl e \<longrightarrow>
            getModuleSize env p nm lg = (Inl e, lg @ [pypi_url nm]))
       \<and> (\<forall>body e. requests_get env (pypi_url nm) = Inr body \<and>
            response_json env body = Inl e \<longrightarrow>
            getModuleSize env p nm lg = (Inl e, lg @ [pypi_url nm]))
       \<and> getModuleSize env p nm lg =
           (and_then (fst (fetch_json env (pypi_url nm) lg)) (last_url_size env),
            lg @ [pypi_url nm])
       \<and> (\<forall>body response. requests_get env (pypi_url nm) = Inr body \<and>
            response_json env body = Inr response \<longrightarrow>
            getModuleSize env p nm lg = (last_url_size env response, lg @ [pypi_url nm]))
       \<and> (\<forall>n lg'. getModuleSize env p nm lg = (Inr n, lg') \<longrightarrow>
            (\<exists>body response. requests_get env (pypi_url nm) = Inr body \<and>
               response_json env body = Inr response \<and> last_url_size env response = Inr n))
       \<and> (\<forall>e md r. metadata_metadata env r = Inr md \<and> resources_files env r = Inr p \<and>
            msg_get md ''Name'' UNKNOWN = nm \<and> requests_get env (pypi_url nm) = Inl e \<and>
            e \<noteq> TypeError \<and> \<not> not_found e \<longrightarrow>
            getPackagesFromLocal env [r] lg = (Inl e, lg @ [pypi_url nm]))"
proof -
  have ok: "getModuleSize env p nm lg = (Inr n, lg @ [pypi_url nm])"
    if "requests_get env (pypi_url nm) = Inr body"
      and "response_json env body = Inr (JObj kvs)"
      and "map_of kvs ''urls'' = Some (JArr us)" and "us \<noteq> []" and "last us = JObj u"
      and "map_of u ''size'' = Some (JInt n)"
    for body kvs us u n
    using that assms
    by (simp add: getModuleSize_def fetch_json_def last_url_size_def and_then_def getitem_def
          getitem_last_def py_int_def)
  have loc: "getPackagesFromLocal env [r] lg = (Inr [local_record md n], lg @ [pypi_url nm])"
    if "getModuleSize env p nm lg = (Inr n, lg @ [pypi_url nm])"
      and "metadata_metadata env r = Inr md" and "resources_files env r = Inr p"
      and "msg_get md ''Name'' UNKNOWN = nm"
    for md r n
    using that by (simp add: getPackagesFromLocal_def local_info_def local_size_def)
  have rest: "(\<forall>e. requests_get env (pypi_url nm) = Inl e \<longrightarrow>
            getModuleSize env p nm lg = (Inl e, lg @ [pypi_url nm]))
       \<and> (\<forall>body e. requests_get env (pypi_url nm) = Inr body \<and>
            response_json env body = Inl e \<longrightarrow>
            getModuleSize env p nm lg = (Inl e, lg @ [pypi_url nm]))
       \<and> getModuleSize env p nm lg =
           (and_then (fst (fetch_json env (pypi_url nm) lg)) (last_url_size env),
            lg @ [pypi_url nm])
       \<and> (\<forall>body response. requests_get env (pypi_url nm) = Inr body \<and>
            response_json env body = Inr response \<longrightarrow>
            getModuleSize env p nm lg = (last_url_size env response, lg @ [pypi_url nm]))
       \<and> (\<forall>n lg'. getModuleSize env p nm lg = (Inr n, lg') \<longrightarrow>
            (\<exists>body response. requests_get env (pypi_url nm) = Inr body \<and>
               response_json env body = Inr response \<and> last_url_size env response = Inr n))
       \<and> (\<forall>e md r. metadata_metadata env r = Inr md \<and> resources_files env r = Inr p \<and>
            msg_get md ''Name'' UNKNOWN = nm \<and> requests_get env (pypi_url nm) = Inl e \<and>
            e \<noteq> TypeError \<and> \<not> not_found e \<longrightarrow>
            getPackagesFromLocal env [r] lg = (Inl e, lg @ [pypi_url nm]))"
    using assms
    by (auto simp: getModuleSize_def fetch_json_def and_then_def getPackagesFromLocal_def
          local_info_def local_size_def split: sum.splits)
  from ok loc rest show ?thesis by blast
qed

theorem getModuleSize_empty_tree_witness:
  "tree_size stubs_tree = 0
   \<and> getModuleSize (registry_env ''stubs'' ''0.1'' 4096) stubs_tree ''stubs'' []
       = (Inr 4096, [pypi_url ''stubs''])
   \<and> getPackagesFromLocal (registry_env ''stubs'' ''0.1'' 4096) [''stubs''] []
       = (Inr [local_record stubs_metadata 4096], [pypi_url ''stubs''])
   \<and> requests_get demo_env (pypi_url ''stubs'') = Inl RequestException
   \<and> getModuleSize demo_env stubs_tree ''stubs'' [] = (Inl RequestException, [pypi_url ''stubs''])
   \<and> getPackagesFromLocal demo_env [''stubs''] [] = (Inl RequestException, [pypi_url ''stubs''])"
proof -
  let ?E = "registry_env ''stubs'' ''0.1'' 4096"
  let ?info = "JObj [(''author'', JNull),
                     (''classifiers'', JArr [JStr ''License :: OSI Approved :: MIT License'']),
                     (''home_page'', JNull), (''license'', JStr ''MIT''),
                     (''version'', JStr ''0.1'')]"
  let ?us = "[JObj [(''size'', JInt 10)], JObj [(''size'', JInt 4096)]]"
  let ?kvs = "[(''info'', ?info), (''urls'', JArr ?us)]"
  have a: "tree_size stubs_tree = 0"
    by code_simp
  have g: "requests_get ?E (pypi_url ''stubs'') = Inr ''body of stubs''"
    by code_simp
  have j: "response_json ?E ''body of stubs'' = Inr (JObj ?kvs)"
    by code_simp
  have s: "map_of ?kvs ''urls'' = Some (JArr ?us) \<and> ?us \<noteq> []
           \<and> last ?us = JObj [(''size'', JInt 4096)]
           \<and> map_of [(''size'', JInt 4096)] ''size'' = Some (JInt 4096)"
    by simp
  have c': "metadata_metadata ?E ''stubs'' = Inr stubs_metadata"
    by code_simp
  have d': "resources_files ?E ''stubs'' = Inr stubs_tree"
    by code_simp
  have e: "msg_get stubs_metadata ''Name'' UNKNOWN = ''stubs''"
    by code_simp
  note t1 = getModuleSize_empty_tree [OF a, of ?E "''stubs''" "[]"]
  from t1 have
    "requests_get ?E (pypi_url ''stubs'') = Inr ''body of stubs'' \<and>
     response_json ?E ''body of stubs'' = Inr (JObj ?kvs) \<and>
     map_of ?kvs ''urls'' = Some (JArr ?us) \<and> ?us \<noteq> [] \<and>
     last ?us = JObj [(''size'', JInt 4096)] \<and>
     map_of [(''size'', JInt 4096)] ''size'' = Some (JInt 4096) \<longrightarrow>
     getModuleSize ?E stubs_tree ''stubs'' [] = (Inr 4096, [] @ [pypi_url ''stubs''])
     \<and> (metadata_metadata ?E ''stubs'' = Inr stubs_metadata \<and>
          resources_files ?E ''stubs'' = Inr stubs_tree \<and>
          msg_get stubs_metadata ''Name'' UNKNOWN = ''stubs'' \<longrightarrow>
          getPackagesFromLocal ?E [''stubs''] []
            = (Inr [local_record stubs_metadata 4096], [] @ [pypi_url ''stubs'']))"
    by blast
  with g j s c' d' e have ok:
    "getModuleSize ?E stubs_tree ''stubs'' [] = (Inr 4096, [pypi_url ''stubs''])
     \<and> getPackagesFromLocal ?E [''stubs''] []
         = (Inr [local_record stubs_metadata 4096], [pypi_url ''stubs''])"
    by simp
  have b: "requests_get demo_env (pypi_url ''stubs'') = Inl RequestException"
    by code_simp
  have c: "metadata_metadata demo_env ''stubs'' = Inr stubs_metadata"
    by (simp add: demo_env_def)
  have d: "resources_files demo_env ''stubs'' = Inr stubs_tree"
    by (simp add: demo_env_def)
  have f: "RequestException \<noteq> TypeError \<and> \<not> not_found RequestException"
    by (simp add: not_found_def)
  note t = getModuleSize_empty_tree [OF a, of demo_env "''stubs''" "[]"]
  from t have "requests_get demo_env (pypi_url ''stubs'') = Inl RequestException \<longrightarrow>
      getModuleSize demo_env stubs_tree ''stubs'' [] = (Inl RequestException, [] @ [pypi_url ''stubs''])"
    by blast
  with b have g2: "getModuleSize demo_env stubs_tree ''stubs'' []
                    = (Inl RequestException, [pypi_url ''stubs''])"
    by simp
  from t have "metadata_metadata demo_env ''stubs'' = Inr stubs_metadata \<and>
      resources_files demo_env ''stubs'' = Inr stubs_tree \<and>
      msg_get stubs_metadata ''Name'' UNKNOWN = ''stubs'' \<and>
      requests_get demo_env (pypi_url ''stubs'') = Inl RequestException \<and>
      RequestException \<noteq> TypeError \<and> \<not> not_found RequestException \<longrightarrow>
      getPackagesFromLocal demo_env [''stubs''] [] = (Inl RequestException, [] @ [pypi_url ''stubs''])"
    by blast
  with b c d e f have "getPackagesFromLocal demo_env [''stubs''] []
                         = (Inl RequestException, [pypi_url ''stubs''])"
    by simp
  with a b g2 ok show ?thesis by simp
qed

section \<open>Properties of the remote resolver\<close>

lemma pypi_info_log:
  "pypi_info env pkg lg = (pypi_result env pkg, lg @ [pypi_url pkg])"
  by (simp add: pypi_info_def pypi_result_def fetch_json_def split: sum.splits)

lemma pypi_record_name: "pypi_record env pkg response = Inr info \<Longrightarrow> name info = pkg"
  by (auto simp: pypi_record_def and_then_def Let_def split: sum.splits if_splits)

lemma pypi_result_name: "pypi_result env pkg = Inr info \<Longrightarrow> name info = pkg"
  by (auto simp: pypi_result_def pypi_info_def fetch_json_def split: sum.splits prod.splits
        dest: pypi_record_name)

text \<open>A round that raises anywhere in the list ends the loop with an exception.\<close>

lemma pypi_loop_fail:
  "pypi_result env r = Inl e \<Longrightarrow> r \<in> set rs \<Longrightarrow>
     \<exists>e' lg'. pypi_loop env acc rs lg = (Inl e', lg')"
proof (induction rs arbitrary: acc lg)
  case Nil
  then show ?case by simp
next
  case (Cons x rs)
  show ?case
  proof (cases "pypi_result env x")
    case (Inl e2)
    then show ?thesis by (simp add: pypi_info_log)
  next
    case (Inr info)
    with Cons.prems have "r \<in> set rs" by auto
    from Cons.IH [OF Cons.prems(1) this] Inr show ?thesis by (simp add: pypi_info_log)
  qed
qed

lemma pypi_loop_prefix:
  "\<forall>p\<in>set pre. \<exists>info. pypi_result env p = Inr info \<Longrightarrow>
     pypi_loop env acc (pre @ rest) lg =
       pypi_loop env (acc @ map (\<lambda>p. projr (pypi_result env p)) pre) rest
         (lg @ map pypi_url pre)"
proof (induction pre arbitrary: acc lg)
  case Nil
  then show ?case by simp
next
  case (Cons x pre)
  then obtain info where i: "pypi_result env x = Inr info" by auto
  from Cons.prems have "\<forall>p\<in>set pre. \<exists>info. pypi_result env p = Inr info" by simp
  from Cons.IH [OF this] i show ?case by (simp add: pypi_info_log)
qed

lemma pypi_loop_Inr:
  "pypi_loop env acc rs lg = (Inr infos, lg') \<Longrightarrow> map name infos = map name acc @ rs"
proof (induction rs arbitrary: acc lg)
  case Nil
  then show ?case by simp
next
  case (Cons x rs)
  show ?case
  proof (cases "pypi_result env x")
    case (Inl e)
    with Cons.prems show ?thesis by (simp add: pypi_info_log)
  next
    case (Inr info)
    with Cons.prems
    have "pypi_loop env (acc @ [info]) rs (lg @ [pypi_url x]) = (Inr infos, lg')"
      by (simp add: pypi_info_log)
    from Cons.IH [OF this] pypi_result_name [OF Inr] show ?thesis by simp
  qed
qed

text \<open>
  Claim C6.  When, for a requirement \<open>r\<close>, the request raises, or the body does not parse,
  or the parsed answer lacks what the record needs (as the answer for a name the registry
  does not know), the exception \<open>e\<close> leaves the round after that one request.  For a list
  that contains \<open>r\<close> the resolver never returns a list of records; and when the names
  before \<open>r\<close> succeed it raises exactly \<open>e\<close>, having made one request for each of them
  and one for \<open>r\<close>, and none for the names behind.
\<close>

theorem packageInfoFromPypi_propagates:
  assumes "requests_get env (pypi_url r) = Inl e
         \<or> (\<exists>body. requests_get env (pypi_url r) = Inr body \<and> response_json env body = Inl e)
         \<or> (\<exists>body response. requests_get env (pypi_url r) = Inr body \<and>
               response_json env body = Inr response \<and> pypi_record env r response = Inl e)"
  shows "pypi_info env r lg = (Inl e, lg @ [pypi_url r])
       \<and> (r \<in> set reqs \<longrightarrow> (\<exists>e' lg'. packageInfoFromPypi env reqs lg = (Inl e', lg')))
       \<and> ((\<forall>p\<in>set pre. \<exists>info. pypi_result env p = Inr info) \<longrightarrow>
            packageInfoFromPypi env (pre @ r # post) lg =
              (Inl e, lg @ map pypi_url pre @ [pypi_url r]))"
proof -
  have res: "pypi_result env r = Inl e"
    using assms by (auto simp: pypi_result_def pypi_info_def fetch_json_def)
  have a: "pypi_info env r lg = (Inl e, lg @ [pypi_url r])"
    using res by (simp add: pypi_info_log)
  have b: "r \<in> set reqs \<longrightarrow> (\<exists>e' lg'. packageInfoFromPypi env reqs lg = (Inl e', lg'))"
    using pypi_loop_fail [OF res] by (simp add: packageInfoFromPypi_def)
  have c: "(\<forall>p\<in>set pre. \<exists>info. pypi_result env p = Inr info) \<longrightarrow>
            packageInfoFromPypi env (pre @ r # post) lg =
              (Inl e, lg @ map pypi_url pre @ [pypi_url r])"
    using res by (simp add: packageInfoFromPypi_def pypi_loop_prefix pypi_info_log)
  from a b c show ?thesis by simp
qed

theorem packageInfoFromPypi_propagates_witness:
  "requests_get demo_env (pypi_url ''unreachable'') = Inl RequestException
   \<and> pypi_result demo_env ''leftpad'' = Inr leftpad_remote
   \<and> pypi_info demo_env ''unreachable'' [] = (Inl RequestException, [pypi_url ''unreachable''])
   \<and> packageInfoFromPypi demo_env [''leftpad'', ''unreachable'', ''PyQt5''] []
       = (Inl RequestException, [pypi_url ''leftpad'', pypi_url ''unreachable''])"
proof -
  have h: "requests_get demo_env (pypi_url ''unreachable'') = Inl RequestException"
    by code_simp
  have p: "pypi_result demo_env ''leftpad'' = Inr leftpad_remote"
    by code_simp
  then have q: "\<forall>p\<in>set [''leftpad'']. \<exists>info. pypi_result demo_env p = Inr info"
    by simp
  note t = packageInfoFromPypi_propagates
             [of demo_env "''unreachable''" RequestException "[]" "[]" "[''leftpad'']" "[''PyQt5'']",
              OF disjI1 [OF h]]
  from t have a: "pypi_info demo_env ''unreachable'' [] = (Inl RequestException, [pypi_url ''unreachable''])"
    by simp
  from t q have "packageInfoFromPypi demo_env ([''leftpad''] @ ''unreachable'' # [''PyQt5'']) []
       = (Inl RequestException, [] @ map pypi_url [''leftpad''] @ [pypi_url ''unreachable''])"
    by blast
  with h p a show ?thesis by simp
qed

lemma packageInfoFromPypi_unknown_name:
  "packageInfoFromPypi demo_env [''nosuch''] [] = (Inl (KeyError ''info''), [pypi_url ''nosuch''])"
  by code_simp

section \<open>Properties of the aggregator\<close>

text \<open>
  Removing, one after the other, the names in a list that satisfy \<open>P\<close> from that list
  leaves the names that do not, and no removal misses.
\<close>

lemma remove_loop_filter:
  "map (\<lambda>i. str_lower env (name i)) infos = filter P xs \<Longrightarrow> \<forall>y\<in>set pre. \<not> P y \<Longrightarrow>
     remove_loop env (pre @ xs) infos = (Inr (), pre @ filter (\<lambda>x. \<not> P x) xs)"
proof (induction xs arbitrary: pre infos)
  case Nil
  then show ?case by simp
next
  case (Cons x xs)
  show ?case
  proof (cases "P x")
    case True
    with Cons.prems(1) obtain i rest where
      infos: "infos = i # rest" and i: "str_lower env (name i) = x"
      and rest: "map (\<lambda>i. str_lower env (name i)) rest = filter P xs"
      by (cases infos) auto
    from True Cons.prems(2) have "x \<notin> set pre" by auto
    then have "list_remove (pre @ x # xs) x = Inr (pre @ xs)"
      by (simp add: list_remove_def remove1_append)
    with infos i Cons.IH [OF rest Cons.prems(2)] True show ?thesis by simp
  next
    case False
    with Cons.prems have m: "map (\<lambda>i. str_lower env (name i)) infos = filter P xs"
      and p: "\<forall>y\<in>set (pre @ [x]). \<not> P y" by auto
    from Cons.IH [OF m p] False show ?thesis by simp
  qed
qed

lemma remove_loop_mset:
  "remove_loop env reqs infos = (Inr u, reqs') \<Longrightarrow>
     mset reqs = mset reqs' + mset (map (\<lambda>i. str_lower env (name i)) infos)"
proof (induction infos arbitrary: reqs)
  case Nil
  then show ?case by simp
next
  case (Cons i infos)
  from Cons.prems have mem: "str_lower env (name i) \<in> set reqs"
    and r: "remove_loop env (remove1 (str_lower env (name i)) reqs) infos = (Inr u, reqs')"
    by (auto simp: list_remove_def split: if_splits)
  from Cons.IH [OF r]
  have a: "mset reqs - {#str_lower env (name i)#}
             = mset reqs' + mset (map (\<lambda>i. str_lower env (name i)) infos)"
    by simp
  have b: "add_mset (str_lower env (name i)) (mset reqs - {#str_lower env (name i)#}) = mset reqs"
    by (rule insert_DiffM) (use mem in simp)
  have "add_mset (str_lower env (name i)) (mset reqs' + mset (map (\<lambda>i. str_lower env (name i)) infos))
          = mset reqs"
    using b unfolding a .
  then show ?case by simp
qed

lemma remove_loop_error:
  "remove_loop env reqs infos = (Inl e, reqs') \<Longrightarrow> e = ValueError"
  by (induction infos arbitrary: reqs) (auto simp: list_remove_def split: if_splits)

lemma resolved_names:
  "\<forall>r\<in>set reqs. \<forall>info. local_result env r = Inr (Some info) \<longrightarrow> str_lower env (name info) = r \<Longrightarrow>
     map (\<lambda>i. str_lower env (name i)) (List.map_filter (resolved_info env) reqs) =
       filter (resolved_locally env) reqs"
  by (induction reqs)
     (auto simp: List.map_filter_simps resolved_locally_def resolved_info_def
           split: option.splits sum.splits)

text \<open>
  Claim C2, as stated: when every locally resolved name of the input is the lower case of
  the name in its record, no name appears in both the local and the remote output.  It
  fails on the names the records carry.  In \<open>demo_env\<close> with a registry that knows
  \<^verbatim>\<open>Flask\<close>, the input \<^verbatim>\<open>flask\<close>, \<^verbatim>\<open>Flask\<close> meets the condition (only \<^verbatim>\<open>flask\<close> is resolved
  locally, and its record is named \<^verbatim>\<open>Flask\<close>), \<open>getPackages\<close> returns normally, and the
  local record and the remote record are both named \<^verbatim>\<open>Flask\<close>.
\<close>

theorem getPackages_same_name_both_outputs:
  "local_result (registry_env ''Flask'' ''2.2.5'' 100000) ''flask''
     = Inr (Some (local_record flask_metadata 900))
   \<and> str_lower (registry_env ''Flask'' ''2.2.5'' 100000) (name (local_record flask_metadata 900))
       = ''flask''
   \<and> local_result (registry_env ''Flask'' ''2.2.5'' 100000) ''Flask'' = Inr None
   \<and> getPackagesFromLocal (registry_env ''Flask'' ''2.2.5'' 100000) [''flask'', ''Flask''] []
       = (Inr [local_record flask_metadata 900], [])
   \<and> packageInfoFromPypi (registry_env ''Flask'' ''2.2.5'' 100000) [''Flask''] []
       = (Inr [flask_remote], [pypi_url ''Flask''])
   \<and> getPackages (registry_env ''Flask'' ''2.2.5'' 100000) [''flask'', ''Flask''] []
       = (Inr [local_record flask_metadata 900, flask_remote], [''Flask''],
          [pypi_url ''Flask''])
   \<and> name (local_record flask_metadata 900) = ''Flask''
   \<and> name flask_remote = ''Flask''
   \<and> set (map name [local_record flask_metadata 900]) \<inter> set (map name [flask_remote]) \<noteq> {}"
  by code_simp

text \<open>
  Claim C2, amended.  Let every name of \<open>reqs\<close> that the local resolver resolves be the
  lower case of the name in its record, and let the local resolver return.  Then no input
  name goes through both resolvers: the lower-cased names of the local records are the
  locally resolved names of \<open>reqs\<close>, in order; the working list handed to the remote
  resolver is \<open>reqs\<close> without them; \<open>getPackages\<close> returns the local records followed by
  the remote records, or raises what the remote resolver raises; and when it returns,
  the remote records are named by exactly the names not resolved locally, the
  lower-cased local names and the remote names are disjoint, and together they are the
  names of \<open>reqs\<close>.  (The name a local record carries, before lower-casing, may still be
  the name of a remote record.)
\<close>

theorem getPackages_one_resolver:
  assumes H: "\<forall>r\<in>set reqs. \<forall>info.
                local_result env r = Inr (Some info) \<longrightarrow> str_lower env (name info) = r"
    and loc: "getPackagesFromLocal env reqs lg = (Inr localReqs, lg1)"
  shows "map (\<lambda>i. str_lower env (name i)) localReqs = filter (resolved_locally env) reqs
       \<and> getPackages env reqs lg =
           (case packageInfoFromPypi env (filter (\<lambda>r. \<not> resolved_locally env r) reqs) lg1 of
              (Inl e, lg2) \<Rightarrow> (Inl e, filter (\<lambda>r. \<not> resolved_locally env r) reqs, lg2)
            | (Inr onlineReqs, lg2) \<Rightarrow>
                (Inr (localReqs @ onlineReqs),
                 filter (\<lambda>r. \<not> resolved_locally env r) reqs, lg2))
       \<and> (\<forall>onlineReqs lg2.
            packageInfoFromPypi env (filter (\<lambda>r. \<not> resolved_locally env r) reqs) lg1
              = (Inr onlineReqs, lg2) \<longrightarrow>
            map name onlineReqs = filter (\<lambda>r. \<not> resolved_locally env r) reqs
            \<and> set (map (\<lambda>i. str_lower env (name i)) localReqs) \<inter> set (map name onlineReqs) = {}
            \<and> set (map (\<lambda>i. str_lower env (name i)) localReqs) \<union> set (map name onlineReqs)
                = set reqs)"
proof -
  let ?rest = "filter (\<lambda>r. \<not> resolved_locally env r) reqs"
  have infos: "localReqs = List.map_filter (resolved_info env) reqs"
    using local_loop_Inr [of env "[]" reqs lg localReqs lg1] loc
    by (simp add: getPackagesFromLocal_def)
  have names: "map (\<lambda>i. str_lower env (name i)) localReqs = filter (resolved_locally env) reqs"
    using resolved_names [OF H] infos by simp
  have rem: "remove_loop env reqs localReqs = (Inr (), ?rest)"
    using remove_loop_filter [OF names, of "[]"] by simp
  have gp: "getPackages env reqs lg =
           (case packageInfoFromPypi env ?rest lg1 of
              (Inl e, lg2) \<Rightarrow> (Inl e, ?rest, lg2)
            | (Inr onlineReqs, lg2) \<Rightarrow> (Inr (localReqs @ onlineReqs), ?rest, lg2))"
    by (simp add: getPackages_def loc rem)
  have onl: "\<forall>onlineReqs lg2. packageInfoFromPypi env ?rest lg1 = (Inr onlineReqs, lg2) \<longrightarrow>
            map name onlineReqs = ?rest
            \<and> set (map (\<lambda>i. str_lower env (name i)) localReqs) \<inter> set (map name onlineReqs) = {}
            \<and> set (map (\<lambda>i. str_lower env (name i)) localReqs) \<union> set (map name onlineReqs)
                = set reqs"
  proof (intro allI impI)
    fix onlineReqs lg2
    assume "packageInfoFromPypi env ?rest lg1 = (Inr onlineReqs, lg2)"
    then have n: "map name onlineReqs = ?rest"
      using pypi_loop_Inr [of env "[]" ?rest lg1 onlineReqs lg2]
      by (simp add: packageInfoFromPypi_def)
    show "map name onlineReqs = ?rest
        \<and> set (map (\<lambda>i. str_lower env (name i)) localReqs) \<inter> set (map name onlineReqs) = {}
        \<and> set (map (\<lambda>i. str_lower env (name i)) localReqs) \<union> set (map name onlineReqs)
            = set reqs"
      unfolding n names by auto
  qed
  from names gp onl show ?thesis by blast
qed

theorem getPackages_one_resolver_witness:
  "getPackagesFromLocal demo_env [''flask'', ''leftpad''] []
     = (Inr [local_record flask_metadata 900], [])
   \<and> str_lower demo_env (name (local_record flask_metadata 900)) = ''flask''
   \<and> filter (\<lambda>r. \<not> resolved_locally demo_env r) [''flask'', ''leftpad''] = [''leftpad'']
   \<and> getPackages demo_env [''flask'', ''leftpad''] []
       = (Inr [local_record flask_metadata 900, leftpad_remote], [''leftpad''],
          [pypi_url ''leftpad''])"
proof -
  have f: "local_result demo_env ''flask'' = Inr (Some (local_record flask_metadata 900))"
    by code_simp
  have n: "str_lower demo_env (name (local_record flask_metadata 900)) = ''flask''"
    by code_simp
  have l: "local_result demo_env ''leftpad'' = Inr None"
    by code_simp
  have H: "\<forall>r\<in>set [''flask'', ''leftpad'']. \<forall>info.
             local_result demo_env r = Inr (Some info) \<longrightarrow> str_lower demo_env (name info) = r"
    using f n l by simp
  have loc: "getPackagesFromLocal demo_env [''flask'', ''leftpad''] []
               = (Inr [local_record flask_metadata 900], [])"
    by code_simp
  have rest: "filter (\<lambda>r. \<not> resolved_locally demo_env r) [''flask'', ''leftpad'']
                = [''leftpad'']"
    using f l by (simp add: resolved_locally_def resolved_info_def)
  have onl: "packageInfoFromPypi demo_env [''leftpad''] []
               = (Inr [leftpad_remote], [pypi_url ''leftpad''])"
    by code_simp
  from getPackages_one_resolver [OF H loc] have
    "getPackages demo_env [''flask'', ''leftpad''] [] =
       (case packageInfoFromPypi demo_env
               (filter (\<lambda>r. \<not> resolved_locally demo_env r) [''flask'', ''leftpad'']) [] of
          (Inl e, lg2) \<Rightarrow>
            (Inl e, filter (\<lambda>r. \<not> resolved_locally demo_env r) [''flask'', ''leftpad''], lg2)
        | (Inr onlineReqs, lg2) \<Rightarrow>
            (Inr ([local_record flask_metadata 900] @ onlineReqs),
             filter (\<lambda>r. \<not> resolved_locally demo_env r) [''flask'', ''leftpad''], lg2))"
    by blast
  then have "getPackages demo_env [''flask'', ''leftpad''] []
       = (Inr [local_record flask_metadata 900, leftpad_remote], [''leftpad''],
          [pypi_url ''leftpad''])"
    unfolding rest onl by simp
  with loc n rest show ?thesis by simp
qed

text \<open>
  Claim C8.  \<open>getPackages\<close> changes the list it is given.  When it returns, the list is
  what the removals left: the lower-cased name of each local record was found in it and
  one occurrence was taken out, so the list is shorter by the number of local records
  and differs from the original as soon as one package was resolved locally.
\<close>

theorem getPackages_mutates_reqs:
  assumes "getPackages env reqs lg = (Inr result, reqs', lg')"
  shows "\<exists>localReqs lg1 onlineReqs.
           getPackagesFromLocal env reqs lg = (Inr localReqs, lg1)
         \<and> result = localReqs @ onlineReqs
         \<and> remove_loop env reqs localReqs = (Inr (), reqs')
         \<and> mset reqs = mset reqs' + mset (map (\<lambda>i. str_lower env (name i)) localReqs)
         \<and> length reqs' + length localReqs = length reqs
         \<and> (localReqs \<noteq> [] \<longrightarrow> reqs' \<noteq> reqs)"
proof -
  from assms obtain localReqs lg1 onlineReqs where
    loc: "getPackagesFromLocal env reqs lg = (Inr localReqs, lg1)"
    and rem: "remove_loop env reqs localReqs = (Inr (), reqs')"
    and res: "result = localReqs @ onlineReqs"
    by (auto simp: getPackages_def split: prod.splits sum.splits)
  from remove_loop_mset [OF rem]
  have m: "mset reqs = mset reqs' + mset (map (\<lambda>i. str_lower env (name i)) localReqs)" .
  then have "size (mset reqs) = size (mset reqs' + mset (map (\<lambda>i. str_lower env (name i)) localReqs))"
    by simp
  then have len: "length reqs' + length localReqs = length reqs" by simp
  then have "localReqs \<noteq> [] \<longrightarrow> reqs' \<noteq> reqs" by auto
  with loc rem res m len show ?thesis by blast
qed

theorem getPackages_mutates_reqs_witness:
  "getPackages demo_env [''flask'', ''leftpad'', ''flask''] []
     = (Inr [local_record flask_metadata 900, local_record flask_metadata 900, leftpad_remote],
        [''leftpad''], [pypi_url ''leftpad''])
   \<and> (\<exists>localReqs lg1.
         getPackagesFromLocal demo_env [''flask'', ''leftpad'', ''flask''] []
           = (Inr localReqs, lg1)
       \<and> mset [''flask'', ''leftpad'', ''flask'']
           = mset [''leftpad''] + mset (map (\<lambda>i. str_lower demo_env (name i)) localReqs)
       \<and> length [''leftpad''] + length localReqs = length [''flask'', ''leftpad'', ''flask''])"
proof -
  have h: "getPackages demo_env [''flask'', ''leftpad'', ''flask''] []
     = (Inr [local_record flask_metadata 900, local_record flask_metadata 900, leftpad_remote],
        [''leftpad''], [pypi_url ''leftpad''])"
    by code_simp
  from getPackages_mutates_reqs [OF h] h show ?thesis by blast
qed

text \<open>
  A single name whose record carries another lower-cased name: the removal misses and
  \<open>getPackages\<close> raises \<open>ValueError\<close> before the remote resolver runs.
\<close>

lemma getPackages_single_mismatch:
  assumes "local_info env r lg = (Inr (Some info), lg1)"
    and "str_lower env (name info) \<noteq> r"
  shows "getPackages env [r] lg = (Inl ValueError, [r], lg1)"
  using assms by (simp add: getPackages_def getPackagesFromLocal_def list_remove_def)

lemma getPackages_single_mismatch_example:
  "getPackages demo_env [''PyQt5''] [] = (Inl ValueError, [''PyQt5''], [])"
  by code_simp

text \<open>
  Claim C3.  There is an input with a name whose casing differs from the lower case of
  the name in its local record, for which that name is resolved locally, stays in the
  working list, and is looked up again by the remote resolver, with no exception raised.
  In \<open>demo_env\<close> the list of \<^verbatim>\<open>PyQt5\<close> and \<^verbatim>\<open>pyqt5\<close> is one: only \<^verbatim>\<open>PyQt5\<close> is resolved
  locally, the removal of \<^verbatim>\<open>pyqt5\<close> takes the other entry, and \<^verbatim>\<open>PyQt5\<close> is requested
  from the registry; the result holds a local and a remote record of the same name.
\<close>

theorem getPackages_duplicate_lookup:
  "local_result demo_env ''PyQt5'' = Inr (Some (local_record pyqt5_metadata 5000))
   \<and> str_lower demo_env (name (local_record pyqt5_metadata 5000)) = ''pyqt5''
   \<and> ''pyqt5'' \<noteq> ''PyQt5''
   \<and> local_result demo_env ''pyqt5'' = Inr None
   \<and> getPackagesFromLocal demo_env [''PyQt5'', ''pyqt5''] []
       = (Inr [local_record pyqt5_metadata 5000], [])
   \<and> getPackages demo_env [''PyQt5'', ''pyqt5''] []
       = (Inr [local_record pyqt5_metadata 5000, pyqt5_remote], [''PyQt5''],
          [pypi_url ''PyQt5''])
   \<and> name (local_record pyqt5_metadata 5000) = name pyqt5_remote"
  by code_simp

end
